theory Spec2Isabelle
  imports Main "HOL-Library.Word"
begin

section \<open>K23SI partition module: validation of read-type requests (Module.h)\<close>

text \<open>
  The request types of \<^verbatim>\<open>dto\<close> are declared outside the sources at hand; the
  validation code reads the fields below and nothing else. \<^verbatim>\<open>RequestT\<close> is the
  template parameter of the validators: the code distinguishes
  \<^verbatim>\<open>dto::K23SIQueryRequest\<close> from every other request type with
  \<^verbatim>\<open>if constexpr (std::is_same<...>)\<close>.
\<close>

record Key =
  schemaName :: string
  partitionKey :: string
  rangeKey :: string

record 'ts K23SI_MTR =
  timestamp :: 'ts

datatype RequestT = K23SIReadRequest | K23SIQueryRequest | K23SIWriteRequest

text \<open>The partition version id is only compared with \<^verbatim>\<open>==\<close>.\<close>

type_synonym PVID = nat

record 'ts Request =
  reqType :: RequestT
  collectionName :: string
  pvid :: PVID
  key :: Key
  mtr :: "'ts K23SI_MTR"
  reverseDirection :: bool

typedecl Schema

text \<open>
  The members of \<^verbatim>\<open>K23SIPartitionModule\<close> the validators read.
  \<^verbatim>\<open>dto::OwnerPartition::owns\<close> is declared outside the sources: its two call
  shapes, \<^verbatim>\<open>owns(key)\<close> and \<^verbatim>\<open>owns(key, reverseDirection)\<close>, are fields
  of the module here. \<^verbatim>\<open>_schemas\<close> maps a schema name to its versions.
\<close>

record 'ts Module =
  cmeta_name :: string
  partition_pvid :: PVID
  owns :: "Key \<Rightarrow> bool"
  owns_rev :: "Key \<Rightarrow> bool \<Rightarrow> bool"
  retentionTimestamp :: 'ts
  schemas :: "string \<rightharpoonup> (nat \<rightharpoonup> Schema)"

datatype K23SIStatusCode =
  RefreshCollection | BadParameter | AbortRequestTooOld | OperationNotAllowed | OK

type_synonym K23SIStatus = "K23SIStatusCode \<times> string"

text \<open>\<^verbatim>\<open>_validateRequestPartition\<close>\<close>

definition validateRequestPartition :: "'ts Module \<Rightarrow> 'ts Request \<Rightarrow> bool" where
  "validateRequestPartition m req =
     (let result = (collectionName req = cmeta_name m \<and> pvid req = partition_pvid m) in
      if reqType req = K23SIQueryRequest
      then result \<and> owns_rev m (key req) (reverseDirection req)
      else result \<and> owns m (key req))"

text \<open>
  \<^verbatim>\<open>_validateRetentionWindow\<close>. \<^verbatim>\<open>Timestamp::compareCertain\<close> is declared
  outside the sources; it is the parameter \<open>compareCertain\<close>, whose result the code
  compares with 0.
\<close>

definition validateRetentionWindow ::
  "('ts \<Rightarrow> 'ts \<Rightarrow> int) \<Rightarrow> 'ts Module \<Rightarrow> 'ts Request \<Rightarrow> bool" where
  "validateRetentionWindow compareCertain m req =
     (compareCertain (timestamp (mtr req)) (retentionTimestamp m) \<ge> 0)"

text \<open>\<^verbatim>\<open>_validateRequestPartitionKey\<close>\<close>

definition validateRequestPartitionKey :: "'ts Request \<Rightarrow> bool" where
  "validateRequestPartitionKey req =
     (if reqType req = K23SIQueryRequest then True
      else \<not> (partitionKey (key req) = []))"

text \<open>\<^verbatim>\<open>_validateReadRequest\<close>, its checks in the order of the source.\<close>

definition validateReadRequest ::
  "('ts \<Rightarrow> 'ts \<Rightarrow> int) \<Rightarrow> 'ts Module \<Rightarrow> 'ts Request \<Rightarrow> K23SIStatus" where
  "validateReadRequest compareCertain m req =
     (if \<not> validateRequestPartition m req then
        (RefreshCollection, ''collection refresh needed in read-type request'')
      else if \<not> validateRequestPartitionKey req then
        (BadParameter, ''missing partition key in read-type request'')
      else if \<not> validateRetentionWindow compareCertain m req then
        (AbortRequestTooOld, ''request too old in read-type request'')
      else if schemas m (schemaName (key req)) = None then
        (OperationNotAllowed, ''schema does not exist in read-type request'')
      else (OK, ''''))"

text \<open>A three-valued comparison of natural-number timestamps, for concrete inputs.\<close>

definition compareNat :: "nat \<Rightarrow> nat \<Rightarrow> int" where
  "compareNat a b = (if a < b then - 1 else if a = b then 0 else 1)"


section \<open>TPC-C client (tpcc\_client.cpp)\<close>

text \<open>
  The batch size of a Delivery transaction in \<^verbatim>\<open>Client::_tpcc\<close>:
  \<^verbatim>\<open>uint16_t batch_size = (x <= 10 && x > 0) ? batch_size : 10;\<close>
  with \<open>x\<close> the configured \<^verbatim>\<open>delivery_txn_batch_size\<close>. The initialiser reads the
  variable it initialises; \<open>uninit\<close> is the indeterminate value that read yields.
\<close>

definition delivery_batch_size :: "16 word \<Rightarrow> 16 word \<Rightarrow> 16 word" where
  "delivery_batch_size uninit x = (if x \<le> 10 \<and> x > 0 then uninit else 10)"

text \<open>
  \<^verbatim>\<open>getRangeEnds\<close>. The loop \<^verbatim>\<open>for (uint32_t i = 1; i <= numPartitions; ++i)\<close>
  counts in 32 bits, so it is a partial function: the result \<open>None\<close> stands for a call
  that gives no vector. \<^verbatim>\<open>FieldToKeyString<int16_t>\<close> is declared outside the
  sources and is the parameter \<open>enc\<close>; its argument \<^verbatim>\<open>(i*share)+1\<close> is computed
  in 32 bits and converted to the 16 bits of \<^verbatim>\<open>int16_t\<close>.
\<close>

partial_function (option) getRangeEnds_loop ::
  "(16 word \<Rightarrow> string) \<Rightarrow> 32 word \<Rightarrow> 32 word \<Rightarrow> 32 word \<Rightarrow> string list \<Rightarrow> string list option" where
  "getRangeEnds_loop enc numPartitions share i rangeEnds =
     (if i \<le> numPartitions
      then getRangeEnds_loop enc numPartitions share (i + 1)
             (rangeEnds @ [enc (ucast (i * share + 1))])
      else Some rangeEnds)"

text \<open>
  The division \<^verbatim>\<open>numWarehouses / numPartitions\<close> is undefined for no partitions;
  the write \<^verbatim>\<open>rangeEnds[numPartitions-1] = ""\<close> is defined inside the vector only.
\<close>

definition getRangeEnds ::
  "(16 word \<Rightarrow> string) \<Rightarrow> 32 word \<Rightarrow> 32 word \<Rightarrow> string list option" where
  "getRangeEnds enc numPartitions numWarehouses =
     (if numPartitions = 0 then None
      else
        let share = numWarehouses div numPartitions;
            share = (if share = 0 then 1 else share)
        in case getRangeEnds_loop enc numPartitions share 1 [] of
             None \<Rightarrow> None
           | Some rangeEnds \<Rightarrow>
               if unat (numPartitions - 1) < length rangeEnds
               then Some (rangeEnds[unat (numPartitions - 1) := []])
               else None)"

text \<open>The share of warehouses per partition, on natural numbers.\<close>

definition warehouseShare :: "nat \<Rightarrow> nat \<Rightarrow> nat" where
  "warehouseShare numPartitions numWarehouses =
     (if numWarehouses div numPartitions = 0 then 1 else numWarehouses div numPartitions)"

definition rangeEnd :: "(16 word \<Rightarrow> string) \<Rightarrow> nat \<Rightarrow> nat \<Rightarrow> string" where
  "rangeEnd enc share j = enc (of_nat (j * share + 1))"

text \<open>A key encoding for concrete inputs.\<close>

definition encDec :: "16 word \<Rightarrow> string" where
  "encDec w = replicate (unat w) CHR ''x''"


section \<open>CPO client (CPOClient.h)\<close>

text \<open>
  \<^verbatim>\<open>Status\<close> (Status.h) is declared outside the sources: a status is its numeric
  code and its message, and each named constructor carries its code in its name.
  \<^verbatim>\<open>is2xxOK\<close> is read off its name; which 5xx codes \<^verbatim>\<open>is5xxRetryable\<close> accepts
  is not visible, so that predicate is a parameter of the functions that call it.
\<close>

record Status =
  code :: nat
  message :: string

definition S200_OK :: "string \<Rightarrow> Status" where
  "S200_OK msg = \<lparr>code = 200, message = msg\<rparr>"

definition S408_Request_Timeout :: "string \<Rightarrow> Status" where
  "S408_Request_Timeout msg = \<lparr>code = 408, message = msg\<rparr>"

definition S410_Gone :: "string \<Rightarrow> Status" where
  "S410_Gone msg = \<lparr>code = 410, message = msg\<rparr>"

definition S503_Service_Unavailable :: "string \<Rightarrow> Status" where
  "S503_Service_Unavailable msg = \<lparr>code = 503, message = msg\<rparr>"

definition is2xxOK :: "Status \<Rightarrow> bool" where
  "is2xxOK s = (200 \<le> code s \<and> code s < 300)"

text \<open>\<^verbatim>\<open>status != Statuses::S410_Gone("")\<close>: statuses compare by code.\<close>

definition isGone :: "Status \<Rightarrow> bool" where
  "isGone s = (code s = code (S410_Gone []))"

text \<open>
  A deadline is a point in time; \<^verbatim>\<open>isOver\<close> and \<^verbatim>\<open>getRemaining\<close> read the
  clock, whose value \<open>now\<close> is an input of every function that reads it.
\<close>

definition isOver :: "nat \<Rightarrow> nat \<Rightarrow> bool" where
  "isOver deadline now = (deadline \<le> now)"

definition getRemaining :: "nat \<Rightarrow> nat \<Rightarrow> nat" where
  "getRemaining deadline now = deadline - now"

text \<open>
  Partitions and the partition map. \<^verbatim>\<open>PartitionGetter::getPartitionForKey\<close> is
  declared outside the sources; a getter is represented by that lookup, which yields a
  partition pointer (null is \<open>None\<close>) and the preferred endpoint.
\<close>

datatype AssignmentState = NotAssigned | PendingAssignment | Assigned | FailedAssignment

record Partition =
  p_pvid :: PVID
  astate :: AssignmentState

record PartitionWithEndpoint =
  partition :: "Partition option"
  preferredEndpoint :: string

type_synonym PartitionGetter = "Key \<Rightarrow> bool \<Rightarrow> bool \<Rightarrow> PartitionWithEndpoint"

definition assigned :: "PartitionWithEndpoint \<Rightarrow> bool" where
  "assigned p = (case partition p of None \<Rightarrow> False | Some q \<Rightarrow> astate q = Assigned)"

text \<open>The configuration durations of the client.\<close>

record CPOConfig =
  partition_request_timeout :: nat
  cpo_request_timeout :: nat
  cpo_request_backoff :: nat

text \<open>
  The arguments of \<^verbatim>\<open>GetAssignedPartitionWithRetry\<close>. A promise in
  \<^verbatim>\<open>requestWaiters\<close> is represented by the captured variables of the continuation
  attached to its future, which are these arguments.
\<close>

record GetArgs =
  g_deadline :: nat
  g_name :: string
  g_key :: Key
  g_reverse :: bool
  g_excludedKey :: bool
  g_retries :: nat

record CPOClient =
  collections :: "string \<rightharpoonup> PartitionGetter"
  requestWaiters :: "string \<rightharpoonup> GetArgs list"

text \<open>
  What a step of \<^verbatim>\<open>GetAssignedPartitionWithRetry\<close> ends with: a ready status, the
  future of the promise just attached, the collection-get RPC with its timeout, or a
  further call of the function, at once or after \<^verbatim>\<open>seastar::sleep\<close>.
\<close>

datatype GetOutcome =
    Return Status
  | AwaitPromise
  | CallCollectionGet string nat
  | SleepThenGet nat GetArgs
  | GetAgain GetArgs

text \<open>
  \<^verbatim>\<open>GetAssignedPartitionWithRetry\<close> up to its first future: the lookup in
  \<^verbatim>\<open>requestWaiters\<close>, then either the new promise or the registration and the RPC.
\<close>

definition GetAssignedPartitionWithRetry ::
  "CPOConfig \<Rightarrow> nat \<Rightarrow> CPOClient \<Rightarrow> GetArgs \<Rightarrow> CPOClient \<times> GetOutcome" where
  "GetAssignedPartitionWithRetry cfg now st a =
     (case requestWaiters st (g_name a) of
        Some waiters \<Rightarrow>
          (st\<lparr>requestWaiters := (requestWaiters st)(g_name a \<mapsto> waiters @ [a])\<rparr>,
           AwaitPromise)
      | None \<Rightarrow>
          (st\<lparr>requestWaiters := (requestWaiters st)(g_name a \<mapsto> [])\<rparr>,
           CallCollectionGet (g_name a)
             (min (getRemaining (g_deadline a) now) (cpo_request_timeout cfg))))"

text \<open>
  \<^verbatim>\<open>collections[name]\<close> inserts a default-constructed getter for a name not in the
  map. Modelled from the spec: the default getter is not in the sources; it is taken to
  know no partition.
\<close>

definition defaultGetter :: PartitionGetter where
  "defaultGetter k r e = \<lparr>partition = None, preferredEndpoint = []\<rparr>"

definition collectionsAt :: "CPOClient \<Rightarrow> string \<Rightarrow> CPOClient \<times> PartitionGetter" where
  "collectionsAt st name =
     (case collections st name of
        Some g \<Rightarrow> (st, g)
      | None \<Rightarrow> (st\<lparr>collections := (collections st)(name \<mapsto> defaultGetter)\<rparr>, defaultGetter))"

text \<open>The continuation of a waiter, run with the status its promise was given.\<close>

definition waiterContinuation ::
  "CPOClient \<Rightarrow> GetArgs \<Rightarrow> Status \<Rightarrow> CPOClient \<times> GetOutcome" where
  "waiterContinuation st a status =
     (if is2xxOK status then
        (let (st', getter) = collectionsAt st (g_name a) in
         if assigned (getter (g_key a) (g_reverse a) (g_excludedKey a))
         then (st', Return status)
         else if g_retries a = 0
         then (st', Return (S408_Request_Timeout ''get assigned partition retries exceeded''))
         else (st', GetAgain (a\<lparr>g_retries := g_retries a - 1\<rparr>)))
      else if g_retries a = 0
      then (st, Return (S408_Request_Timeout ''get assigned partition retries exceeded''))
      else (st, GetAgain (a\<lparr>g_retries := g_retries a - 1\<rparr>)))"

text \<open>
  Modelled from the spec: \<^verbatim>\<open>FulfillWaiters\<close> is declared in the class and defined
  outside the sources. It gives the status to every promise registered for the name and
  removes the registration ("subsequent callers attach as waiters" of the one in-flight
  Get). The result lists the waiters resumed, each with the status it receives.
\<close>

definition FulfillWaiters ::
  "CPOClient \<Rightarrow> string \<Rightarrow> Status \<Rightarrow> CPOClient \<times> (GetArgs \<times> Status) list" where
  "FulfillWaiters st name status =
     (st\<lparr>requestWaiters := (requestWaiters st)(name := None)\<rparr>,
      map (\<lambda>w. (w, status)) (case requestWaiters st name of None \<Rightarrow> [] | Some ws \<Rightarrow> ws))"

text \<open>
  The continuation of the collection-get RPC, run with the response
  \<open>(status, collection)\<close>; the collection of the response is represented by the getter
  built from it. The third component of the result lists the waiters fulfilled on the
  way. \<open>retryOrReturn\<close> is the part of the continuation after its first
  \<^verbatim>\<open>if\<close> chain, with the value of \<^verbatim>\<open>retry\<close> that chain has set.
\<close>

definition retryOrReturn ::
  "CPOConfig \<Rightarrow> nat \<Rightarrow> CPOClient \<Rightarrow> GetArgs \<Rightarrow> Status \<Rightarrow> bool \<Rightarrow> (GetArgs \<times> Status) list
     \<Rightarrow> CPOClient \<times> GetOutcome \<times> (GetArgs \<times> Status) list" where
  "retryOrReturn cfg now st a status retry ws =
     (if \<not> retry then (st, Return status, ws)
      else if is2xxOK status \<and> retry \<and> g_retries a = 0 then
        (let status' = S503_Service_Unavailable ''not all partitions assigned in cpo'';
             (st', ws') = FulfillWaiters st (g_name a) status'
         in (st', Return status', ws @ ws'))
      else if isOver (g_deadline a) now then
        (let status' = S408_Request_Timeout ''cpo deadline exceeded'';
             (st', ws') = FulfillWaiters st (g_name a) status'
         in (st', Return status', ws @ ws'))
      else if g_retries a = 0 then
        (let (st', ws') = FulfillWaiters st (g_name a) status
         in (st', Return (S408_Request_Timeout ''cpo retries exceeded''), ws @ ws'))
      else
        (st,
         SleepThenGet (min (getRemaining (g_deadline a) now) (cpo_request_backoff cfg))
           (a\<lparr>g_retries := g_retries a - 1\<rparr>),
         ws))"

definition onCollectionGetResponse ::
  "(Status \<Rightarrow> bool) \<Rightarrow> CPOConfig \<Rightarrow> nat \<Rightarrow> CPOClient \<Rightarrow> GetArgs \<Rightarrow> Status \<times> PartitionGetter
     \<Rightarrow> CPOClient \<times> GetOutcome \<times> (GetArgs \<times> Status) list" where
  "onCollectionGetResponse is5xxRetryable cfg now st a response =
     (let (status, collection) = response; name = g_name a in
      if is2xxOK status then
        (let st0 = st\<lparr>collections := (collections st)(name \<mapsto> collection)\<rparr>;
             p = collection (g_key a) (g_reverse a) (g_excludedKey a);
             (st1, ws) = FulfillWaiters st0 name status
         in retryOrReturn cfg now st1 a status (\<not> assigned p) ws)
      else if is5xxRetryable status then
        retryOrReturn cfg now st a status True []
      else
        (let (st1, ws) = FulfillWaiters st name status in (st1, Return status, ws)))"

text \<open>
  \<^verbatim>\<open>PartitionRequest\<close>. Its arguments, and what a step of it ends with: the
  response returned to the caller, the refresh of the partition map followed by the
  continuation after it, the partition RPC, or the refresh followed by a further
  \<^verbatim>\<open>PartitionRequest\<close>.
\<close>

record 'ts PRArgs =
  pr_deadline :: nat
  pr_request :: "'ts Request"
  pr_reverse :: bool
  pr_exclusiveKey :: bool
  pr_retries :: nat

datatype ('ts, 'resp) PROutcome =
    PRReturn Status 'resp
  | PRGetThenContinue GetArgs
  | PRCallPartition "'ts PRArgs" string nat
  | PRGetThenRequest GetArgs "'ts PRArgs"

text \<open>The call of \<^verbatim>\<open>GetAssignedPartitionWithRetry\<close> with its default retries.\<close>

definition refreshArgs :: "'ts PRArgs \<Rightarrow> GetArgs" where
  "refreshArgs a =
     \<lparr>g_deadline = pr_deadline a, g_name = collectionName (pr_request a),
      g_key = key (pr_request a), g_reverse = pr_reverse a,
      g_excludedKey = pr_exclusiveKey a, g_retries = 1\<rparr>"

text \<open>
  The continuation after the collection is at hand (or its refresh has completed with
  \<open>status\<close>); \<open>dflt\<close> is the default-constructed \<^verbatim>\<open>ResponseT()\<close>.
\<close>

definition PartitionRequest_continue ::
  "CPOConfig \<Rightarrow> 'resp \<Rightarrow> nat \<Rightarrow> CPOClient \<Rightarrow> 'ts PRArgs \<Rightarrow> Status \<Rightarrow> ('ts, 'resp) PROutcome" where
  "PartitionRequest_continue cfg dflt now st a status =
     (case collections st (collectionName (pr_request a)) of
        None \<Rightarrow> PRReturn status dflt
      | Some getter \<Rightarrow>
          (let p = getter (key (pr_request a)) (pr_reverse a) (pr_exclusiveKey a) in
           case partition p of
             None \<Rightarrow> PRReturn (S503_Service_Unavailable ''partition not assigned'') dflt
           | Some q \<Rightarrow>
               if astate q \<noteq> Assigned
               then PRReturn (S503_Service_Unavailable ''partition not assigned'') dflt
               else PRCallPartition
                      (a\<lparr>pr_request := (pr_request a)\<lparr>pvid := p_pvid q\<rparr>\<rparr>)
                      (preferredEndpoint p)
                      (min (getRemaining (pr_deadline a) now) (partition_request_timeout cfg))))"

definition PartitionRequest ::
  "CPOConfig \<Rightarrow> 'resp \<Rightarrow> nat \<Rightarrow> CPOClient \<Rightarrow> 'ts PRArgs \<Rightarrow> ('ts, 'resp) PROutcome" where
  "PartitionRequest cfg dflt now st a =
     (case collections st (collectionName (pr_request a)) of
        None \<Rightarrow> PRGetThenContinue (refreshArgs a)
      | Some getter \<Rightarrow>
          if \<not> assigned (getter (key (pr_request a)) (pr_reverse a) (pr_exclusiveKey a))
          then PRGetThenContinue (refreshArgs a)
          else PartitionRequest_continue cfg dflt now st a (S200_OK ''default cached response''))"

text \<open>The continuation of the partition RPC, run with its result.\<close>

definition onPartitionResult ::
  "(Status \<Rightarrow> bool) \<Rightarrow> 'resp \<Rightarrow> nat \<Rightarrow> 'ts PRArgs \<Rightarrow> Status \<times> 'resp \<Rightarrow> ('ts, 'resp) PROutcome" where
  "onPartitionResult is5xxRetryable dflt now a result =
     (let (status, k2response) = result in
      if \<not> isGone status \<and> \<not> is5xxRetryable status then PRReturn status k2response
      else if isOver (pr_deadline a) now then
        PRReturn (S408_Request_Timeout ''partition deadline exceeded'') dflt
      else if pr_retries a = 0 then
        PRReturn (S408_Request_Timeout ''partition retries exceeded'') dflt
      else PRGetThenRequest (refreshArgs a) (a\<lparr>pr_retries := pr_retries a - 1\<rparr>))"

text \<open>
  The client among concurrent callers on one core: the number of collection-get RPCs
  outstanding for each name is counted beside the client. A step is a call of
  \<^verbatim>\<open>GetAssignedPartitionWithRetry\<close> by anyone (first calls, the calls after a sleep
  and the further calls of waiters alike), the completion of an outstanding RPC, which
  runs its continuation, or the continuation of a waiter.
\<close>

record System =
  client :: CPOClient
  outstanding :: "string \<Rightarrow> nat"

definition issued :: "GetOutcome \<Rightarrow> (string \<Rightarrow> nat) \<Rightarrow> string \<Rightarrow> nat" where
  "issued out cnt =
     (case out of CallCollectionGet name t \<Rightarrow> cnt(name := cnt name + 1) | _ \<Rightarrow> cnt)"

inductive step :: "(Status \<Rightarrow> bool) \<Rightarrow> CPOConfig \<Rightarrow> System \<Rightarrow> System \<Rightarrow> bool"
  for is5xxRetryable :: "Status \<Rightarrow> bool" and cfg :: CPOConfig where
  call:
    "GetAssignedPartitionWithRetry cfg now (client s) a = (st', out) \<Longrightarrow>
     step is5xxRetryable cfg s \<lparr>client = st', outstanding = issued out (outstanding s)\<rparr>"
| response:
    "0 < outstanding s (g_name a) \<Longrightarrow>
     onCollectionGetResponse is5xxRetryable cfg now (client s) a resp = (st', out, ws) \<Longrightarrow>
     step is5xxRetryable cfg s
       \<lparr>client = st',
        outstanding = (outstanding s)(g_name a := outstanding s (g_name a) - 1)\<rparr>"
| waiter:
    "waiterContinuation (client s) a status = (st', out) \<Longrightarrow>
     step is5xxRetryable cfg s \<lparr>client = st', outstanding = outstanding s\<rparr>"

inductive reachable :: "(Status \<Rightarrow> bool) \<Rightarrow> CPOConfig \<Rightarrow> System \<Rightarrow> bool"
  for is5xxRetryable :: "Status \<Rightarrow> bool" and cfg :: CPOConfig where
  reach_init:
    "reachable is5xxRetryable cfg
       \<lparr>client = \<lparr>collections = cs, requestWaiters = Map.empty\<rparr>, outstanding = (\<lambda>n. 0)\<rparr>"
| reach_step:
    "reachable is5xxRetryable cfg s \<Longrightarrow> step is5xxRetryable cfg s s' \<Longrightarrow>
     reachable is5xxRetryable cfg s'"








section \<open>Timestamp oracle worker (TSOWorker.cpp)\<close>

text \<open>
  The worker's state and the batch it returns are declared in TSOService.h, outside the
  sources; the fields are those the code reads and writes (the step and the delta of the
  control information carry the prefix \<open>ctl\<close>, since the batch has fields of the same
  names). Unsigned machine integers are natural numbers, with the wrap-around of each
  64-bit and 16-bit operation written out. The width of \<^verbatim>\<open>TBENanoSecStep\<close> is not
  visible; it is a natural number.
\<close>

definition u64 :: "nat \<Rightarrow> nat" where
  "u64 x = x mod 2 ^ 64"

definition u16 :: "nat \<Rightarrow> nat" where
  "u16 x = x mod 2 ^ 16"

record TSOWorkerControlInfo =
  IsReadyToIssueTS :: bool
  IgnoreThreshold :: bool
  TBEAdjustment :: nat
  ReservedTimeThreshold :: nat
  ctlTBENanoSecStep :: nat
  ctlTsDelta :: nat
  BatchTTL :: nat

record TimestampBatch =
  TBEBase :: nat
  TSOId :: nat
  TsDelta :: nat
  TTLNanoSec :: nat
  TSCount :: nat
  TBENanoSecStep :: nat

record TSOWorker =
  curControlInfo :: TSOWorkerControlInfo
  lastRequestTBEMicroSecRounded :: nat
  lastRequestTimeStampCount :: nat
  tsoId :: nat

text \<open>
  How a call ends without a batch: the exception the code throws, a failed
  \<^verbatim>\<open>K2ASSERT\<close>, or the division by a step of zero. \<^verbatim>\<open>K2ASSERT\<close> is a macro
  defined outside the sources and, by the code's own comment ("let it crash in debug
  mode"), active in debug builds: \<open>debug\<close> says whether it is.
\<close>

datatype TSOError = TSONotReadyException | AssertionFailed | DivisionByZero

type_synonym TSOResult = "(TSOError + TimestampBatch) \<times> TSOWorker \<times> nat list"

text \<open>
  \<^verbatim>\<open>(now_nsec_count() + _curControlInfo.TBEAdjustment) / 1000 * 1000\<close>, for the clock
  reading \<open>now\<close>.
\<close>

definition curTBEMicroSecRounded :: "TSOWorker \<Rightarrow> nat \<Rightarrow> nat" where
  "curTBEMicroSecRounded w now =
     u64 (u64 (now + TBEAdjustment (curControlInfo w)) div 1000 * 1000)"

text \<open>
  The busy wait of the helper: while the rounded time equals that of the last request,
  read the clock again. The clock is the list of the values \<^verbatim>\<open>now_nsec_count()\<close>
  returns from now on; a wait that uses them all up has not ended (\<open>None\<close>).
\<close>

fun busyWait :: "TSOWorker \<Rightarrow> nat \<Rightarrow> nat list \<Rightarrow> nat list option" where
  "busyWait w cur clock =
     (if cur = lastRequestTBEMicroSecRounded w
      then (case clock of
              [] \<Rightarrow> None
            | now # clock' \<Rightarrow> busyWait w (curTBEMicroSecRounded w now) clock')
      else Some clock)"

lemma busyWait_length:
  "busyWait w cur clock = Some clock' \<Longrightarrow> length clock' \<le> length clock"
proof (induction clock arbitrary: cur)
  case Nil
  then show ?case by (simp split: if_splits)
next
  case (Cons now clock)
  then show ?case by (fastforce split: if_splits)
qed

text \<open>
  \<^verbatim>\<open>GetTimestampFromTSO\<close> and \<^verbatim>\<open>GetTimeStampFromTSOLessFrequentHelper\<close>, for the
  build flag \<open>debug\<close> and the value \<open>shard\<close> of \<^verbatim>\<open>seastar::this_shard_id()\<close>. A call
  returns its outcome, the worker and the rest of the clock.
\<close>

function GetTimestampFromTSO ::
    "bool \<Rightarrow> nat \<Rightarrow> TSOWorker \<Rightarrow> nat list \<Rightarrow> nat \<Rightarrow> TSOResult option"
  and GetTimeStampFromTSOLessFrequentHelper ::
    "bool \<Rightarrow> nat \<Rightarrow> TSOWorker \<Rightarrow> nat list \<Rightarrow> nat \<Rightarrow> nat \<Rightarrow> TSOResult option"
  where
  "GetTimestampFromTSO debug shard w [] batchSizeRequested = None"
| "GetTimestampFromTSO debug shard w (now # clock) batchSizeRequested =
     (let ci = curControlInfo w;
          cur = curTBEMicroSecRounded w now
      in
      if IsReadyToIssueTS ci
         \<and> (IgnoreThreshold ci \<or> u64 (cur + 1000) < ReservedTimeThreshold ci)
         \<and> cur > lastRequestTBEMicroSecRounded w
      then
        if u64 (cur + 1000) > ReservedTimeThreshold ci \<and> debug \<and> \<not> IgnoreThreshold ci
        then Some (Inl AssertionFailed, w, clock)
        else if ctlTBENanoSecStep ci = 0 then Some (Inl DivisionByZero, w, clock)
        else
          (let batchSizeToIssue = min batchSizeRequested (u16 (1000 div ctlTBENanoSecStep ci));
               result = \<lparr>TBEBase = u64 (cur + shard + (2 ^ 64 - 1)),
                         TSOId = tsoId w,
                         TsDelta = ctlTsDelta ci,
                         TTLNanoSec = BatchTTL ci,
                         TSCount = batchSizeToIssue,
                         TBENanoSecStep = ctlTBENanoSecStep ci\<rparr>
           in Some (Inr result,
                    w\<lparr>lastRequestTBEMicroSecRounded := cur,
                      lastRequestTimeStampCount := batchSizeToIssue\<rparr>,
                    clock))
      else GetTimeStampFromTSOLessFrequentHelper debug shard w clock batchSizeRequested cur)"
| "GetTimeStampFromTSOLessFrequentHelper debug shard w clock batchSizeRequested cur =
     (let ci = curControlInfo w in
      if \<not> IsReadyToIssueTS ci then Some (Inl TSONotReadyException, w, clock)
      else if u64 (cur + 1000) > ReservedTimeThreshold ci \<and> \<not> IgnoreThreshold ci
      then Some (Inl TSONotReadyException, w, clock)
      else if cur < lastRequestTBEMicroSecRounded w
      then Some (Inl TSONotReadyException, w, clock)
      else if debug \<and> cur \<noteq> lastRequestTBEMicroSecRounded w
      then Some (Inl AssertionFailed, w, clock)
      else if ctlTBENanoSecStep ci = 0 then Some (Inl DivisionByZero, w, clock)
      else
        (let leftoverTS =
               nat ((int (1000 div ctlTBENanoSecStep ci) - int (lastRequestTimeStampCount w))
                    mod 2 ^ 16)
         in
         if leftoverTS < batchSizeRequested
         then (case busyWait w cur clock of
                 None \<Rightarrow> None
               | Some clock' \<Rightarrow> GetTimestampFromTSO debug shard w clock' batchSizeRequested)
         else
           (let result =
                  \<lparr>TBEBase = u64 (cur + shard + (2 ^ 64 - 1)
                                   + lastRequestTimeStampCount w * ctlTBENanoSecStep ci),
                   TSOId = tsoId w,
                   TsDelta = ctlTsDelta ci,
                   TTLNanoSec = BatchTTL ci,
                   TSCount = batchSizeRequested,
                   TBENanoSecStep = ctlTBENanoSecStep ci\<rparr>
            in Some (Inr result,
                     w\<lparr>lastRequestTimeStampCount :=
                         u16 (lastRequestTimeStampCount w + batchSizeRequested)\<rparr>,
                     clock))))"
  by pat_completeness auto
termination
proof (relation "measure (\<lambda>x. case x of
           Inl (debug, shard, w, clock, req) \<Rightarrow> 2 * length clock
         | Inr (debug, shard, w, clock, req, cur) \<Rightarrow> 2 * length clock + 1)", goal_cases)
  case 1
  show ?case by simp
next
  case 2
  then show ?case by simp
next
  case 3
  then show ?case using busyWait_length by fastforce
qed

text \<open>
  The worker serving a sequence of requests, each with its batch size: the batches of
  the calls that succeed, in order. After \<^verbatim>\<open>TSONotReadyException\<close> the RPC handler
  answers 503 and the worker goes on; a failed assertion or a division by zero ends the
  process; a call whose wait has not ended is the last one.
\<close>

fun serve :: "bool \<Rightarrow> nat \<Rightarrow> TSOWorker \<Rightarrow> nat list \<Rightarrow> nat list \<Rightarrow> TimestampBatch list" where
  "serve debug shard w clock [] = []"
| "serve debug shard w clock (req # reqs) =
     (case GetTimestampFromTSO debug shard w clock req of
        None \<Rightarrow> []
      | Some (Inr batch, w', clock') \<Rightarrow> batch # serve debug shard w' clock' reqs
      | Some (Inl TSONotReadyException, w', clock') \<Rightarrow> serve debug shard w' clock' reqs
      | Some (Inl e, w', clock') \<Rightarrow> [])"

text \<open>
  Modelled from the spec: the timestamps a batch stands for are computed by the client
  library, outside the sources: \<open>TSCount\<close> timestamps from \<open>TBEBase\<close> on, consecutive
  ones \<open>TBENanoSecStep\<close> apart.
\<close>

definition batchTimestamps :: "TimestampBatch \<Rightarrow> nat list" where
  "batchTimestamps b = map (\<lambda>i. TBEBase b + i * TBENanoSecStep b) [0 ..< TSCount b]"










text \<open>
  Concrete inputs: a worker that is ready, with a step of 100 ns and nothing issued yet.
\<close>

definition sampleControlInfo :: TSOWorkerControlInfo where
  "sampleControlInfo =
     \<lparr>IsReadyToIssueTS = True, IgnoreThreshold = False, TBEAdjustment = 0,
      ReservedTimeThreshold = 100000, ctlTBENanoSecStep = 100, ctlTsDelta = 1, BatchTTL = 2\<rparr>"

definition sampleWorker :: TSOWorker where
  "sampleWorker =
     \<lparr>curControlInfo = sampleControlInfo, lastRequestTBEMicroSecRounded = 0,
      lastRequestTimeStampCount = 0, tsoId = 7\<rparr>"


section \<open>Request validation: theorems\<close>

lemma validateReadRequest_code:
  "fst (validateReadRequest cmp m req) = c \<longleftrightarrow>
     (if \<not> validateRequestPartition m req then c = RefreshCollection
      else if \<not> validateRequestPartitionKey req then c = BadParameter
      else if \<not> validateRetentionWindow cmp m req then c = AbortRequestTooOld
      else if schemas m (schemaName (key req)) = None then c = OperationNotAllowed
      else c = OK)"
  by (auto simp: validateReadRequest_def)



text \<open>
  C2, as stated, at a request to the right partition with an empty partition key and a
  timestamp below retention: the claim gives \<open>AbortRequestTooOld\<close>, the code gives
  \<open>BadParameter\<close>, since it tests the partition key before the retention window.
\<close>

theorem read_validation_order_counterexample:
  "validateRequestPartition
     \<lparr>cmeta_name = ''c'', partition_pvid = 1, owns = (\<lambda>k. True),
      owns_rev = (\<lambda>k r. True), retentionTimestamp = (10::nat),
      schemas = Map.empty\<rparr>
     \<lparr>reqType = K23SIReadRequest, collectionName = ''c'', pvid = 1,
      key = \<lparr>schemaName = ''s'', partitionKey = '''', rangeKey = ''''\<rparr>,
      mtr = \<lparr>timestamp = 9\<rparr>, reverseDirection = False\<rparr>
   \<and> compareNat 9 10 < 0
   \<and> validateReadRequest compareNat
     \<lparr>cmeta_name = ''c'', partition_pvid = 1, owns = (\<lambda>k. True),
      owns_rev = (\<lambda>k r. True), retentionTimestamp = (10::nat),
      schemas = Map.empty\<rparr>
     \<lparr>reqType = K23SIReadRequest, collectionName = ''c'', pvid = 1,
      key = \<lparr>schemaName = ''s'', partitionKey = '''', rangeKey = ''''\<rparr>,
      mtr = \<lparr>timestamp = 9\<rparr>, reverseDirection = False\<rparr>
     = (BadParameter, ''missing partition key in read-type request'')
   \<and> fst (validateReadRequest compareNat
     \<lparr>cmeta_name = ''c'', partition_pvid = 1, owns = (\<lambda>k. True),
      owns_rev = (\<lambda>k r. True), retentionTimestamp = (10::nat),
      schemas = Map.empty\<rparr>
     \<lparr>reqType = K23SIReadRequest, collectionName = ''c'', pvid = 1,
      key = \<lparr>schemaName = ''s'', partitionKey = '''', rangeKey = ''''\<rparr>,
      mtr = \<lparr>timestamp = 9\<rparr>, reverseDirection = False\<rparr>)
     \<noteq> AbortRequestTooOld"
  by (simp add: validateReadRequest_def validateRequestPartition_def
      validateRequestPartitionKey_def compareNat_def)

text \<open>
  C2, amended. The checks of a read-type request run in the order partition ownership,
  partition key non-empty, retention window, schema known, and the status is that of the
  first check that fails: \<open>RefreshCollection\<close>, \<open>BadParameter\<close>,
  \<open>AbortRequestTooOld\<close>, \<open>OperationNotAllowed\<close>, and \<open>OK\<close> when all pass. A
  request that fails both the partition-key check and the retention check gets
  \<open>BadParameter\<close>.
\<close>

theorem read_validation_order:
  "(fst (validateReadRequest cmp m req) = RefreshCollection)
     = (\<not> validateRequestPartition m req)
   \<and> (fst (validateReadRequest cmp m req) = BadParameter)
     = (validateRequestPartition m req \<and> \<not> validateRequestPartitionKey req)
   \<and> (fst (validateReadRequest cmp m req) = AbortRequestTooOld)
     = (validateRequestPartition m req \<and> validateRequestPartitionKey req
        \<and> \<not> validateRetentionWindow cmp m req)
   \<and> (fst (validateReadRequest cmp m req) = OperationNotAllowed)
     = (validateRequestPartition m req \<and> validateRequestPartitionKey req
        \<and> validateRetentionWindow cmp m req
        \<and> schemas m (schemaName (key req)) = None)
   \<and> (fst (validateReadRequest cmp m req) = OK)
     = (validateRequestPartition m req \<and> validateRequestPartitionKey req
        \<and> validateRetentionWindow cmp m req
        \<and> schemas m (schemaName (key req)) \<noteq> None)"
  unfolding validateReadRequest_code by auto

theorem read_validation_order_witness:
  "fst (validateReadRequest compareNat
     \<lparr>cmeta_name = ''c'', partition_pvid = 1, owns = (\<lambda>k. True),
      owns_rev = (\<lambda>k r. True), retentionTimestamp = (10::nat),
      schemas = Map.empty\<rparr>
     \<lparr>reqType = K23SIReadRequest, collectionName = ''c'', pvid = 1,
      key = \<lparr>schemaName = ''s'', partitionKey = ''p'', rangeKey = ''''\<rparr>,
      mtr = \<lparr>timestamp = 12\<rparr>, reverseDirection = False\<rparr>)
   = OperationNotAllowed"
  using read_validation_order [of compareNat
     "\<lparr>cmeta_name = ''c'', partition_pvid = 1, owns = (\<lambda>k. True),
      owns_rev = (\<lambda>k r. True), retentionTimestamp = (10::nat),
      schemas = Map.empty\<rparr>"
     "\<lparr>reqType = K23SIReadRequest, collectionName = ''c'', pvid = 1,
      key = \<lparr>schemaName = ''s'', partitionKey = ''p'', rangeKey = ''''\<rparr>,
      mtr = \<lparr>timestamp = 12\<rparr>, reverseDirection = False\<rparr>"]
  by (simp add: compareNat_def validateRequestPartition_def validateRequestPartitionKey_def
      validateRetentionWindow_def)

text \<open>
  C9. The partition-key validation depends on the request type: a Query request passes
  whatever its key, an empty partition key included; a request of any other type passes
  exactly when its partition key is not empty.
\<close>

theorem partition_key_validation_by_request_type:
  "validateRequestPartitionKey (req\<lparr>reqType := K23SIQueryRequest\<rparr>)
   \<and> validateRequestPartitionKey
       (req\<lparr>reqType := K23SIQueryRequest, key := (key req)\<lparr>partitionKey := []\<rparr>\<rparr>)
   \<and> (reqType req \<noteq> K23SIQueryRequest \<longrightarrow>
        validateRequestPartitionKey req = (partitionKey (key req) \<noteq> []))"
  by (simp add: validateRequestPartitionKey_def)

theorem partition_key_validation_by_request_type_witness:
  "validateRequestPartitionKey
     \<lparr>reqType = K23SIReadRequest, collectionName = ''c'', pvid = 1,
      key = \<lparr>schemaName = ''s'', partitionKey = ''p'', rangeKey = ''''\<rparr>,
      mtr = \<lparr>timestamp = (12::nat)\<rparr>, reverseDirection = False\<rparr>
   \<and> \<not> validateRequestPartitionKey
     \<lparr>reqType = K23SIWriteRequest, collectionName = ''c'', pvid = 1,
      key = \<lparr>schemaName = ''s'', partitionKey = '''', rangeKey = ''''\<rparr>,
      mtr = \<lparr>timestamp = (12::nat)\<rparr>, reverseDirection = False\<rparr>"
  using partition_key_validation_by_request_type [of
     "\<lparr>reqType = K23SIReadRequest, collectionName = ''c'', pvid = 1,
      key = \<lparr>schemaName = ''s'', partitionKey = ''p'', rangeKey = ''''\<rparr>,
      mtr = \<lparr>timestamp = (12::nat)\<rparr>, reverseDirection = False\<rparr>"]
    partition_key_validation_by_request_type [of
     "\<lparr>reqType = K23SIWriteRequest, collectionName = ''c'', pvid = 1,
      key = \<lparr>schemaName = ''s'', partitionKey = '''', rangeKey = ''''\<rparr>,
      mtr = \<lparr>timestamp = (12::nat)\<rparr>, reverseDirection = False\<rparr>"]
  by simp


section \<open>TPC-C client: theorems\<close>

text \<open>
  C7, the code at a configured batch size of 5: the batch size is whatever the
  uninitialised variable held, for instance 0, and not 5; outside 1..10 it is 10.
\<close>

theorem delivery_batch_size_reads_uninitialised:
  "delivery_batch_size u 5 = u \<and> delivery_batch_size 0 5 \<noteq> 5
   \<and> delivery_batch_size u 0 = 10 \<and> delivery_batch_size u 11 = 10"
  by (simp add: delivery_batch_size_def)

lemma of_nat_mod32_16: "(of_nat (x mod 4294967296) :: 16 word) = of_nat x"
proof -
  have "(65536::nat) dvd 4294967296" by simp
  then have "x mod 4294967296 mod 65536 = x mod 65536" by (rule mod_mod_cancel)
  then show ?thesis by (simp add: word_of_nat_eq_iff take_bit_eq_mod)
qed

lemma enc_aux: "(ucast (i * share + 1 :: 32 word) :: 16 word) = of_nat (unat i * unat share + 1)"
proof -
  have "unat (i * share + 1) = (unat i * unat share + 1) mod 4294967296"
    by (simp add: unat_word_ariths mod_simps)
  then have "(of_nat (unat (i * share + 1)) :: 16 word) = of_nat (unat i * unat share + 1)"
    by (simp only: of_nat_mod32_16)
  moreover have "(ucast (i * share + 1) :: 16 word) = of_nat (unat (i * share + 1))"
    by simp
  ultimately show ?thesis by (simp only:)
qed

lemma getRangeEnds_loop_returns:
  assumes "numPartitions < 0xFFFFFFFF"
  shows "unat i \<le> unat numPartitions + 1 \<Longrightarrow>
     getRangeEnds_loop enc numPartitions share i acc =
       Some (acc @ map (rangeEnd enc (unat share)) [unat i ..< unat numPartitions + 1])"
proof (induction "unat numPartitions + 1 - unat i" arbitrary: i acc)
  case 0
  then have "unat i = unat numPartitions + 1" by simp
  then have "\<not> i \<le> numPartitions" by (simp add: word_le_nat_alt)
  then show ?case using 0 by (subst getRangeEnds_loop.simps) simp
next
  case (Suc n)
  then have le: "unat i \<le> unat numPartitions" by simp
  then have ile: "i \<le> numPartitions" by (simp add: word_le_nat_alt)
  have "unat numPartitions < 4294967295" using assms by (simp add: word_less_nat_alt)
  then have ui: "unat (i + 1) = unat i + 1" using le
    by (simp add: unat_word_ariths)
  have el: "enc (ucast (i * share + 1)) = rangeEnd enc (unat share) (unat i)"
    by (simp only: rangeEnd_def enc_aux)
  have up: "[unat i ..< unat numPartitions + 1] = unat i # [unat i + 1 ..< unat numPartitions + 1]"
    using le by (simp add: upt_conv_Cons del: upt_Suc)
  have "getRangeEnds_loop enc numPartitions share i acc =
        getRangeEnds_loop enc numPartitions share (i + 1) (acc @ [enc (ucast (i * share + 1))])"
    using ile by (subst getRangeEnds_loop.simps) simp
  also have "\<dots> = Some ((acc @ [enc (ucast (i * share + 1))]) @
       map (rangeEnd enc (unat share)) [unat (i+1) ..< unat numPartitions + 1])"
    using Suc(2) ui le by (intro Suc(1)) auto
  also have "\<dots> = Some (acc @ map (rangeEnd enc (unat share)) [unat i ..< unat numPartitions + 1])"
    by (simp only: up ui el list.map append_assoc append.simps)
  finally show ?case .
qed

lemma share_unat:
  "unat (if numWarehouses div numPartitions = 0 then 1 else numWarehouses div numPartitions :: 32 word)
     = warehouseShare (unat numPartitions) (unat numWarehouses)"
proof -
  have d: "unat (numWarehouses div numPartitions) = unat numWarehouses div unat numPartitions"
    by (rule unat_div)
  have "(numWarehouses div numPartitions = 0) = (unat (numWarehouses div numPartitions) = 0)"
    by (simp add: unat_eq_0)
  then show ?thesis using d by (simp add: warehouseShare_def)
qed

lemma getRangeEnds_loop_forever:
  assumes "getRangeEnds_loop enc numPartitions share i acc = Some y"
  shows "numPartitions \<noteq> 0xFFFFFFFF"
proof (rule getRangeEnds_loop.raw_induct
    [where P = "\<lambda>_ n _ _ _ _. n \<noteq> 0xFFFFFFFF", OF _ assms])
  fix f :: "(16 word \<Rightarrow> string) \<Rightarrow> 32 word \<Rightarrow> 32 word \<Rightarrow> 32 word \<Rightarrow> string list \<Rightarrow> string list option"
  fix enc' numPartitions' share' i' acc' y'
  assume IH: "\<And>e n s j a r. f e n s j a = Some r \<Longrightarrow> n \<noteq> 0xFFFFFFFF"
    and step: "(if i' \<le> numPartitions'
      then f enc' numPartitions' share' (i' + 1) (acc' @ [enc' (ucast (i' * share' + 1))])
      else Some acc') = Some y'"
  show "numPartitions' \<noteq> 0xFFFFFFFF"
  proof
    assume m: "numPartitions' = 0xFFFFFFFF"
    have "unat i' < 2 ^ 32" using unsigned_less [of i', where ?'a = nat] by simp
    then have "i' \<le> numPartitions'" unfolding m by (simp add: word_le_nat_alt)
    then have "f enc' numPartitions' share' (i' + 1) (acc' @ [enc' (ucast (i' * share' + 1))]) = Some y'"
      using step by simp
    then show False using IH m by blast
  qed
qed

text \<open>
  C8. For at least one partition (and fewer than \<open>2^32 - 1\<close>, the bound of the 32-bit
  loop counter), \<^verbatim>\<open>getRangeEnds\<close> returns a vector of exactly
  \<open>numPartitions\<close> strings, the last one empty, and the one at 0-based position
  \<open>i < numPartitions - 1\<close> is the 16-bit key encoding of \<open>(i+1) * share + 1\<close>, with
  \<open>share\<close> the quotient of warehouses by partitions, or 1 when that is 0.
\<close>

theorem getRangeEnds_result:
  assumes "1 \<le> numPartitions" and "numPartitions < 0xFFFFFFFF"
  shows "\<exists>rangeEnds. getRangeEnds enc numPartitions numWarehouses = Some rangeEnds
     \<and> length rangeEnds = unat numPartitions
     \<and> last rangeEnds = []
     \<and> (\<forall>i < unat numPartitions - 1.
          rangeEnds ! i = enc (of_nat ((i + 1) *
             warehouseShare (unat numPartitions) (unat numWarehouses) + 1)))"
proof -
  let ?share = "if numWarehouses div numPartitions = 0 then 1 else numWarehouses div numPartitions"
  let ?sh = "warehouseShare (unat numPartitions) (unat numWarehouses)"
  let ?rs = "map (rangeEnd enc ?sh) [1 ..< unat numPartitions + 1]"
  have nz: "numPartitions \<noteq> 0" using assms(1) by auto
  then have pos: "0 < unat numPartitions" by (simp add: unat_gt_0)
  have "getRangeEnds_loop enc numPartitions ?share 1 [] =
      Some ([] @ map (rangeEnd enc (unat ?share)) [unat (1 :: 32 word) ..< unat numPartitions + 1])"
    by (rule getRangeEnds_loop_returns [OF assms(2)]) simp
  then have loop: "getRangeEnds_loop enc numPartitions ?share 1 [] = Some ?rs"
    by (simp only: share_unat unat_1 append.simps)
  have idx: "unat (numPartitions - 1) = unat numPartitions - 1"
    using assms(1) by (simp add: unat_sub)
  have len0: "length ?rs = unat numPartitions" by simp
  have res: "getRangeEnds enc numPartitions numWarehouses = Some (?rs[unat numPartitions - 1 := []])"
    unfolding getRangeEnds_def Let_def using nz pos loop
    by (simp only: idx len0 if_False option.case) simp
  have len: "length (?rs[unat numPartitions - 1 := []]) = unat numPartitions"
    by (simp only: length_list_update len0)
  have lst: "last (?rs[unat numPartitions - 1 := []]) = []"
    using pos len0 by (simp add: last_conv_nth del: upt_Suc)
  have elems: "\<forall>i < unat numPartitions - 1.
      (?rs[unat numPartitions - 1 := []]) ! i = enc (of_nat ((i + 1) * ?sh + 1))"
  proof (intro allI impI)
    fix i assume i: "i < unat numPartitions - 1"
    then have "(?rs[unat numPartitions - 1 := []]) ! i = ?rs ! i" by (simp del: upt_Suc)
    also have "\<dots> = rangeEnd enc ?sh ([1 ..< unat numPartitions + 1] ! i)"
      using i by (intro nth_map) auto
    also have "[1 ..< unat numPartitions + 1] ! i = 1 + i"
      using i by (intro nth_upt) auto
    also have "rangeEnd enc ?sh (1 + i) = enc (of_nat ((i + 1) * ?sh + 1))"
      by (simp add: rangeEnd_def)
    finally show "(?rs[unat numPartitions - 1 := []]) ! i = enc (of_nat ((i + 1) * ?sh + 1))" .
  qed
  show ?thesis using res len lst elems by blast
qed

theorem getRangeEnds_result_witness:
  "(1 :: 32 word) \<le> 3 \<and> (3 :: 32 word) < 0xFFFFFFFF
   \<and> (\<exists>rangeEnds. getRangeEnds encDec 3 6 = Some rangeEnds
     \<and> length rangeEnds = unat (3 :: 32 word)
     \<and> last rangeEnds = []
     \<and> (\<forall>i < unat (3 :: 32 word) - 1.
          rangeEnds ! i = encDec (of_nat ((i + 1) *
             warehouseShare (unat (3 :: 32 word)) (unat (6 :: 32 word)) + 1))))"
  using getRangeEnds_result [of 3 encDec 6] by simp


section \<open>CPO client: theorems\<close>

lemma FulfillWaiters_other:
  "n \<noteq> name \<Longrightarrow>
   requestWaiters (fst (FulfillWaiters st name status)) n = requestWaiters st n"
  by (simp add: FulfillWaiters_def)






text \<open>
  C4. In \<^verbatim>\<open>PartitionRequest\<close>, a partition RPC that completes with a status that is
  neither 410 Gone nor 5xx-retryable has that status and its response returned
  unchanged, and nothing is retried; a status that is 410 Gone or 5xx-retryable, with the
  deadline not over and retries left, makes the client refresh the partition map with
  \<^verbatim>\<open>GetAssignedPartitionWithRetry\<close> and then call \<^verbatim>\<open>PartitionRequest\<close> again
  for the same request with one retry less; a further request follows in no other case.
\<close>

theorem partition_request_retry_policy:
  "(\<not> isGone status \<and> \<not> is5xxRetryable status \<longrightarrow>
      onPartitionResult is5xxRetryable dflt now a (status, resp) = PRReturn status resp)
   \<and> ((isGone status \<or> is5xxRetryable status) \<and> \<not> isOver (pr_deadline a) now
        \<and> pr_retries a \<noteq> 0 \<longrightarrow>
      onPartitionResult is5xxRetryable dflt now a (status, resp)
        = PRGetThenRequest (refreshArgs a) (a\<lparr>pr_retries := pr_retries a - 1\<rparr>)
      \<and> pr_request (a\<lparr>pr_retries := pr_retries a - 1\<rparr>) = pr_request a
      \<and> g_name (refreshArgs a) = collectionName (pr_request a)
      \<and> g_key (refreshArgs a) = key (pr_request a))
   \<and> (\<exists>g a'. onPartitionResult is5xxRetryable dflt now a (status, resp) = PRGetThenRequest g a')
       = ((isGone status \<or> is5xxRetryable status) \<and> \<not> isOver (pr_deadline a) now
          \<and> pr_retries a \<noteq> 0)
   \<and> isGone status = (code status = 410)"
  by (auto simp: onPartitionResult_def isGone_def S410_Gone_def refreshArgs_def)

theorem partition_request_retry_policy_witness:
  "onPartitionResult (\<lambda>s. code s = 503) (0::nat) 10
     \<lparr>pr_deadline = 100,
      pr_request = \<lparr>reqType = K23SIReadRequest, collectionName = ''c'', pvid = 1,
        key = \<lparr>schemaName = ''s'', partitionKey = ''p'', rangeKey = ''''\<rparr>,
        mtr = \<lparr>timestamp = (12::nat)\<rparr>, reverseDirection = False\<rparr>,
      pr_reverse = False, pr_exclusiveKey = False, pr_retries = 1\<rparr>
     (\<lparr>code = 404, message = ''not found''\<rparr>, 7)
   = PRReturn \<lparr>code = 404, message = ''not found''\<rparr> 7
   \<and> onPartitionResult (\<lambda>s. code s = 503) (0::nat) 10
     \<lparr>pr_deadline = 100,
      pr_request = \<lparr>reqType = K23SIReadRequest, collectionName = ''c'', pvid = 1,
        key = \<lparr>schemaName = ''s'', partitionKey = ''p'', rangeKey = ''''\<rparr>,
        mtr = \<lparr>timestamp = (12::nat)\<rparr>, reverseDirection = False\<rparr>,
      pr_reverse = False, pr_exclusiveKey = False, pr_retries = 1\<rparr>
     (\<lparr>code = 410, message = ''gone''\<rparr>, 7)
   = PRGetThenRequest
      \<lparr>g_deadline = 100, g_name = ''c'',
       g_key = \<lparr>schemaName = ''s'', partitionKey = ''p'', rangeKey = ''''\<rparr>,
       g_reverse = False, g_excludedKey = False, g_retries = 1\<rparr>
      \<lparr>pr_deadline = 100,
       pr_request = \<lparr>reqType = K23SIReadRequest, collectionName = ''c'', pvid = 1,
         key = \<lparr>schemaName = ''s'', partitionKey = ''p'', rangeKey = ''''\<rparr>,
         mtr = \<lparr>timestamp = (12::nat)\<rparr>, reverseDirection = False\<rparr>,
       pr_reverse = False, pr_exclusiveKey = False, pr_retries = 0\<rparr>"
  using partition_request_retry_policy [of "\<lparr>code = 404, message = ''not found''\<rparr>"
      "\<lambda>s. code s = 503" "0::nat" 10
      "\<lparr>pr_deadline = 100,
      pr_request = \<lparr>reqType = K23SIReadRequest, collectionName = ''c'', pvid = 1,
        key = \<lparr>schemaName = ''s'', partitionKey = ''p'', rangeKey = ''''\<rparr>,
        mtr = \<lparr>timestamp = (12::nat)\<rparr>, reverseDirection = False\<rparr>,
      pr_reverse = False, pr_exclusiveKey = False, pr_retries = 1\<rparr>" 7]
    partition_request_retry_policy [of "\<lparr>code = 410, message = ''gone''\<rparr>"
      "\<lambda>s. code s = 503" "0::nat" 10
      "\<lparr>pr_deadline = 100,
      pr_request = \<lparr>reqType = K23SIReadRequest, collectionName = ''c'', pvid = 1,
        key = \<lparr>schemaName = ''s'', partitionKey = ''p'', rangeKey = ''''\<rparr>,
        mtr = \<lparr>timestamp = (12::nat)\<rparr>, reverseDirection = False\<rparr>,
      pr_reverse = False, pr_exclusiveKey = False, pr_retries = 1\<rparr>" 7]
  by (simp add: isGone_def S410_Gone_def isOver_def refreshArgs_def)







section \<open>Timestamp oracle worker: theorems\<close>



declare busyWait.simps [simp del]











declare GetTimestampFromTSO.simps [simp del]

declare GetTimeStampFromTSOLessFrequentHelper.simps [simp del]











lemma serve_Cons:
  "serve debug shard w clock (req # reqs) =
     (case GetTimestampFromTSO debug shard w clock req of
        None \<Rightarrow> []
      | Some (res, w', clock') \<Rightarrow>
          (case res of
             Inr batch \<Rightarrow> batch # serve debug shard w' clock' reqs
           | Inl e \<Rightarrow> if e = TSONotReadyException then serve debug shard w' clock' reqs else []))"
  by (auto split: option.splits sum.splits TSOError.splits)

declare serve.simps(2) [simp del]








text \<open>
  Why the clock matters in a build without assertions: at a rounded time exactly one
  microsecond below the reserved threshold the fast path is not taken and the helper
  issues for the new microsecond without recording it. On a clock that then steps back
  into a microsecond in between, the fast path issues below what was issued before; with
  assertions the second call fails instead.
\<close>

lemma unrecorded_microsecond_example:
  "map batchTimestamps
     (serve False 1 (sampleWorker\<lparr>curControlInfo :=
        sampleControlInfo\<lparr>ReservedTimeThreshold := 8000\<rparr>\<rparr>) [5000, 7000, 6000] [4, 4, 4])
     = [[5000, 5100, 5200, 5300], [7400, 7500, 7600, 7700], [6000, 6100, 6200, 6300]]
   \<and> map batchTimestamps
     (serve True 1 (sampleWorker\<lparr>curControlInfo :=
        sampleControlInfo\<lparr>ReservedTimeThreshold := 8000\<rparr>\<rparr>) [5000, 7000, 6000] [4, 4, 4])
     = [[5000, 5100, 5200, 5300]]"
  by (simp add: serve_Cons GetTimestampFromTSO.simps
      GetTimeStampFromTSOLessFrequentHelper.simps Let_def curTBEMicroSecRounded_def
      u64_def u16_def sampleWorker_def sampleControlInfo_def batchTimestamps_def
      upt_rec [of _ "numeral n" for n] upt_rec [of _ "Suc n" for n])






end
